theory Spec2Isabelle
  imports Complex_Main
begin

section \<open>Python values and exceptions\<close>

text \<open>
  The script \<^verbatim>\<open>1_classification_animeface/py/main.py\<close> is embedded function by
  function. The metrics (losses and accuracies) are idealised as reals; the elapsed time
  that \<^verbatim>\<open>main\<close> prints is computed in binary64 arithmetic, with its rounding.
  Exceptions are values: every method of the classifier returns its outcome (the
  exception raised or the value returned) together with the state of \<^verbatim>\<open>self\<close> at that
  moment.
\<close>

datatype py_error = AttributeError | ZeroDivisionError | KeyError

text \<open>
  A NumPy scalar as \<^verbatim>\<open>tensor.cpu().numpy()\<close> yields it for a 0-dim tensor. NumPy
  does not raise on a division by zero: the quotient is inf or nan, which the reals
  lack, so it is a value of its own.
\<close>

datatype ndarray = NdArray real | NdNonFinite

text \<open>
  The values the classifier handles: a plain Python float (what \<^verbatim>\<open>.item()\<close>
  returns), a 0-dim torch tensor, the nan tensor that the mean of an empty tensor is,
  and a NumPy scalar.
\<close>

datatype pyval = PyFloat real | Tensor real | TensorNaN | Numpy ndarray

text \<open>
  \<^verbatim>\<open>x.cpu()\<close> and \<^verbatim>\<open>x.numpy()\<close> are methods of torch tensors only; a Python
  float and a NumPy scalar have no such attribute.
\<close>

fun cpu :: "pyval \<Rightarrow> py_error + pyval" where
  "cpu (Tensor x) = Inr (Tensor x)"
| "cpu TensorNaN = Inr TensorNaN"
| "cpu (PyFloat x) = Inl AttributeError"
| "cpu (Numpy a) = Inl AttributeError"

fun numpy :: "pyval \<Rightarrow> py_error + ndarray" where
  "numpy (Tensor x) = Inr (NdArray x)"
| "numpy TensorNaN = Inr NdNonFinite"
| "numpy (PyFloat x) = Inl AttributeError"
| "numpy (Numpy a) = Inl AttributeError"

definition cpu_numpy :: "pyval \<Rightarrow> py_error + ndarray" where
  \<comment> \<open>\<^verbatim>\<open>x.cpu().numpy()\<close>\<close>
  "cpu_numpy x = (case cpu x of Inl e \<Rightarrow> Inl e | Inr y \<Rightarrow> numpy y)"

text \<open>
  The builtin \<^verbatim>\<open>sum\<close> starts from the int 0 and adds the elements from the left, so
  the sum of an empty list is the int 0 and every other sum of NumPy scalars is a NumPy
  scalar.
\<close>

datatype pysum = PyInt int | NpSum ndarray

fun py_add :: "pysum \<Rightarrow> ndarray \<Rightarrow> pysum" where
  "py_add (PyInt a) (NdArray x) = NpSum (NdArray (of_int a + x))"
| "py_add (NpSum (NdArray y)) (NdArray x) = NpSum (NdArray (y + x))"
| "py_add _ _ = NpSum NdNonFinite"

definition py_sum :: "ndarray list \<Rightarrow> pysum" where
  "py_sum xs = foldl py_add (PyInt 0) xs"

text \<open>
  \<^verbatim>\<open>total / len(xs)\<close>: the division of two Python ints raises on a zero divisor,
  the division of a NumPy scalar by an int never raises.
\<close>

fun py_truediv :: "pysum \<Rightarrow> nat \<Rightarrow> py_error + pyval" where
  "py_truediv (PyInt a) n =
     (if n = 0 then Inl ZeroDivisionError else Inr (PyFloat (of_int a / of_nat n)))"
| "py_truediv (NpSum (NdArray x)) n =
     (if n = 0 then Inr (Numpy NdNonFinite) else Inr (Numpy (NdArray (x / of_nat n))))"
| "py_truediv (NpSum NdNonFinite) n = Inr (Numpy NdNonFinite)"

section \<open>The configuration\<close>

text \<open>
  The fields of the hydra configuration that main.py reads. The configuration file
  itself is not part of the sources, so every field is an input.
\<close>

record optimizer_config =
  lr :: real
  momentum :: real
  weight_decay :: real
  lr_step_size :: int
  lr_gamma :: real

record config =
  exp_name :: string
  path2db :: string
  path2weight :: string
  image_size :: nat
  crop_size :: nat
  batch_size :: nat
  num_classes :: nat
  epochs :: nat
  seed :: int
  log_freq :: int
  print_freq :: int
  apex :: bool
  optimizer :: optimizer_config

section \<open>ImageClassifier\<close>

text \<open>
  The state of an \<^verbatim>\<open>ImageClassifier\<close>: the three attributes \<^verbatim>\<open>__init__\<close> sets,
  the two attributes of the framework's base class that the methods read
  (\<^verbatim>\<open>testing\<close>, \<^verbatim>\<open>global_step\<close>), and the metrics handed to \<^verbatim>\<open>self.log\<close>, oldest
  first. The network and the loss are functions: \<^typ>\<open>'x\<close> is a batch of images,
  \<^typ>\<open>'o\<close> the network's output, \<^typ>\<open>'t\<close> a batch of targets, and the loss of a batch
  is the value of a 0-dim tensor.
\<close>

record ('x, 'o, 't) classifier =
  args :: config
  model :: "'x \<Rightarrow> 'o"
  criterion :: "'o \<Rightarrow> 't \<Rightarrow> real"
  testing :: bool
  global_step :: int
  logged :: "(string \<times> pyval) list"

definition init :: "config \<Rightarrow> ('x \<Rightarrow> 'o) \<Rightarrow> ('o \<Rightarrow> 't \<Rightarrow> real) \<Rightarrow> ('x, 'o, 't) classifier" where
  \<comment> \<open>\<^verbatim>\<open>__init__\<close>; a fresh module is not testing, at step 0, and has logged nothing\<close>
  "init a m c =
     \<lparr>args = a, model = m, criterion = c, testing = False, global_step = 0, logged = []\<rparr>"

definition self_log :: "string \<Rightarrow> pyval \<Rightarrow> ('x, 'o, 't) classifier \<Rightarrow> ('x, 'o, 't) classifier" where
  \<comment> \<open>\<^verbatim>\<open>self.log(name, value)\<close>\<close>
  "self_log name v s = s\<lparr>logged := logged s @ [(name, v)]\<rparr>"

definition forward :: "('x, 'o, 't) classifier \<Rightarrow> 'x \<Rightarrow> 'o" where
  "forward s x = model s x"

subsection \<open>Validation\<close>

text \<open>
  What the environment supplies to the methods: the working directory hydra started
  from, \<^verbatim>\<open>os.cpu_count()\<close>, the helper \<^verbatim>\<open>utils.accuracy\<close> called with
  \<^verbatim>\<open>topk=(1, 5)\<close> (its file is not part of the sources; it yields the two accuracy
  tensors).
\<close>

record ('o, 't) environment =
  original_cwd :: string
  cpu_count :: "nat option"
  accuracy :: "'o \<Rightarrow> 't \<Rightarrow> real \<times> real"

type_synonym batch_output = "pyval \<times> pyval \<times> pyval"

definition validation_step ::
  "('o, 't) environment \<Rightarrow> ('x, 'o, 't) classifier \<Rightarrow> 'x \<times> 't \<Rightarrow> nat \<Rightarrow> batch_output" where
  "validation_step env s batch batch_idx =
     (let (image, target) = batch;
          output = forward s image;
          loss = criterion s output target;
          (acc1, acc5) = accuracy env output target
      in (PyFloat loss, PyFloat acc1, PyFloat acc5))"

text \<open>
  The loop of \<^verbatim>\<open>validation_epoch_end\<close>: the three lists grow by one element per
  output, and the first element without \<^verbatim>\<open>.cpu()\<close> ends the loop with the exception.
\<close>

fun collect ::
  "batch_output list \<Rightarrow> ndarray list \<Rightarrow> ndarray list \<Rightarrow> ndarray list \<Rightarrow>
     py_error + (ndarray list \<times> ndarray list \<times> ndarray list)" where
  "collect [] loss_list acc1_list acc5_list = Inr (loss_list, acc1_list, acc5_list)"
| "collect (output # outputs) loss_list acc1_list acc5_list =
     (case cpu_numpy (fst output) of
        Inl e \<Rightarrow> Inl e
      | Inr l \<Rightarrow>
          (case cpu_numpy (fst (snd output)) of
             Inl e \<Rightarrow> Inl e
           | Inr a1 \<Rightarrow>
               (case cpu_numpy (snd (snd output)) of
                  Inl e \<Rightarrow> Inl e
                | Inr a5 \<Rightarrow>
                    collect outputs (loss_list @ [l]) (acc1_list @ [a1]) (acc5_list @ [a5]))))"

definition validation_epoch_end ::
  "('x, 'o, 't) classifier \<Rightarrow> batch_output list \<Rightarrow>
     (py_error + (string \<times> pyval) list option) \<times> ('x, 'o, 't) classifier" where
  "validation_epoch_end s outputs =
     (case collect outputs [] [] [] of
        Inl e \<Rightarrow> (Inl e, s)
      | Inr (loss_list, acc1_list, acc5_list) \<Rightarrow>
          (case py_truediv (py_sum loss_list) (length loss_list) of
             Inl e \<Rightarrow> (Inl e, s)
           | Inr loss \<Rightarrow>
               (case py_truediv (py_sum acc1_list) (length acc1_list) of
                  Inl e \<Rightarrow> (Inl e, s)
                | Inr acc1 \<Rightarrow>
                    (case py_truediv (py_sum acc5_list) (length acc5_list) of
                       Inl e \<Rightarrow> (Inl e, s)
                     | Inr acc5 \<Rightarrow>
                         (let s' = self_log ''val_acc5'' acc5
                                     (self_log ''val_acc1'' acc1
                                        (self_log ''val_loss'' loss s))
                          in (Inr (if testing s
                                   then Some [(''val_loss'', loss), (''val_acc1'', acc1),
                                              (''val_acc5'', acc5)]
                                   else None), s'))))))"

definition test_step ::
  "('o, 't) environment \<Rightarrow> ('x, 'o, 't) classifier \<Rightarrow> 'x \<times> 't \<Rightarrow> nat \<Rightarrow> batch_output" where
  "test_step env s batch batch_idx = validation_step env s batch batch_idx"

definition test_epoch_end ::
  "('x, 'o, 't) classifier \<Rightarrow> batch_output list \<Rightarrow>
     (py_error + (string \<times> pyval) list option) \<times> ('x, 'o, 't) classifier" where
  "test_epoch_end s outputs = validation_epoch_end s outputs"

subsection \<open>Training\<close>

text \<open>
  Python's \<^verbatim>\<open>%\<close> on ints takes the sign of the divisor, as \<^term>\<open>(mod)\<close> on
  \<^typ>\<open>int\<close> does, and raises on a zero divisor.
\<close>

definition training_step ::
  "('o, 't) environment \<Rightarrow> ('x, 'o, 't) classifier \<Rightarrow> 'x \<times> 't \<Rightarrow> nat \<Rightarrow>
     (py_error + (string \<times> pyval) list) \<times> ('x, 'o, 't) classifier" where
  "training_step env s batch batch_nb =
     (let (image, target) = batch;
          output = forward s image;
          loss = criterion s output target
      in if log_freq (args s) = 0 then (Inl ZeroDivisionError, s)
         else if global_step s mod log_freq (args s) = 0
         then (let (acc1, acc5) = accuracy env output target;
                   s' = self_log ''train_acc5'' (PyFloat acc5)
                          (self_log ''train_acc1'' (PyFloat acc1)
                             (self_log ''train_loss'' (PyFloat loss) s))
               in (Inr [(''loss'', Tensor loss)], s'))
         else (Inr [(''loss'', Tensor loss)], s))"

text \<open>
  \<^verbatim>\<open>batch_parts["loss"].mean()\<close>: the entry is the tensor of the losses of the
  devices, given by its elements; the mean of an empty tensor is nan.
\<close>

definition tensor_mean :: "real list \<Rightarrow> pyval" where
  "tensor_mean xs = (if xs = [] then TensorNaN else Tensor (sum_list xs / of_nat (length xs)))"

definition training_step_end :: "(string \<rightharpoonup> real list) \<Rightarrow> py_error + pyval" where
  "training_step_end batch_parts =
     (case batch_parts ''loss'' of None \<Rightarrow> Inl KeyError | Some t \<Rightarrow> Inr (tensor_mean t))"

subsection \<open>Paths\<close>

text \<open>
  \<^verbatim>\<open>os.path.join\<close> on a POSIX system: a component that starts with a slash
  replaces what was joined so far, and a slash is inserted unless the path so far is
  empty or ends with one.
\<close>

definition join_step :: "string \<Rightarrow> string \<Rightarrow> string" where
  "join_step path b =
     (if b \<noteq> [] \<and> hd b = CHR ''/'' then b
      else if path = [] \<or> last path = CHR ''/'' then path @ b
      else path @ ''/'' @ b)"

definition os_path_join :: "string \<Rightarrow> string list \<Rightarrow> string" where
  "os_path_join a p = foldl join_step a p"

subsection \<open>Transforms and data loaders\<close>

datatype interpolation = BILINEAR

datatype transform =
    Resize nat interpolation
  | RandomCrop nat
  | RandomHorizontalFlip real
  | CenterCrop nat
  | ToTensor
  | Normalize "real list" "real list"

definition train_transform :: "('x, 'o, 't) classifier \<Rightarrow> transform list" where
  "train_transform s =
     [Resize (image_size (args s)) BILINEAR,
      RandomCrop (crop_size (args s)),
      RandomHorizontalFlip 0.5,
      ToTensor,
      Normalize [0.485, 0.456, 0.406] [0.229, 0.224, 0.225]]"

definition valid_transform :: "('x, 'o, 't) classifier \<Rightarrow> transform list" where
  "valid_transform s =
     [Resize (image_size (args s)) BILINEAR,
      CenterCrop (crop_size (args s)),
      ToTensor,
      Normalize [0.485, 0.456, 0.406] [0.229, 0.224, 0.225]]"

text \<open>
  \<^verbatim>\<open>AnimeFaceDataset\<close>, \<^verbatim>\<open>get_worker_init\<close> and torch's \<^verbatim>\<open>DataLoader\<close> are not
  part of the sources: a dataset, a worker initialiser and a loader are the arguments
  they were built from.
\<close>

record AnimeFaceDataset =
  image_dir :: string
  transform_of :: "transform list"

datatype worker_init = get_worker_init int

record DataLoader =
  dataset :: AnimeFaceDataset
  loader_batch_size :: nat
  shuffle :: bool
  num_workers :: "nat option"
  pin_memory :: bool
  drop_last :: bool
  worker_init_fn :: worker_init

definition dataloader ::
  "('o, 't) environment \<Rightarrow> ('x, 'o, 't) classifier \<Rightarrow> bool \<Rightarrow> DataLoader" where
  \<comment> \<open>\<^verbatim>\<open>__dataloader\<close>\<close>
  "dataloader env s train =
     (let cwd = original_cwd env;
          ds = (if train
                then \<lparr>image_dir = os_path_join cwd [path2db (args s), ''train''],
                      transform_of = train_transform s\<rparr>
                else \<lparr>image_dir = os_path_join cwd [path2db (args s), ''val''],
                      transform_of = valid_transform s\<rparr>)
      in \<lparr>dataset = ds,
          loader_batch_size = batch_size (args s),
          shuffle = train,
          num_workers = cpu_count env,
          pin_memory = True,
          drop_last = train,
          worker_init_fn = get_worker_init (seed (args s))\<rparr>)"

definition train_dataloader :: "('o, 't) environment \<Rightarrow> ('x, 'o, 't) classifier \<Rightarrow> DataLoader" where
  "train_dataloader env s = dataloader env s True"

definition val_dataloader :: "('o, 't) environment \<Rightarrow> ('x, 'o, 't) classifier \<Rightarrow> DataLoader" where
  "val_dataloader env s = dataloader env s False"

definition test_dataloader :: "('o, 't) environment \<Rightarrow> ('x, 'o, 't) classifier \<Rightarrow> DataLoader" where
  "test_dataloader env s = dataloader env s False"

subsection \<open>Optimizer and callbacks\<close>

text \<open>
  \<^verbatim>\<open>optim.SGD\<close> and \<^verbatim>\<open>StepLR\<close> are records of their arguments (the parameters of
  the network are left out). The number of batches \<^verbatim>\<open>len(loader)\<close> of a loader is
  torch's to compute and is a parameter.
\<close>

record SGD =
  sgd_lr :: real
  sgd_momentum :: real
  sgd_weight_decay :: real

record StepLR =
  scheduled :: SGD
  step_size :: int
  gamma :: real

definition configure_optimizers ::
  "(DataLoader \<Rightarrow> nat) \<Rightarrow> ('o, 't) environment \<Rightarrow> ('x, 'o, 't) classifier \<Rightarrow>
     SGD list \<times> StepLR list" where
  "configure_optimizers len env s =
     (let epoch_per_iteration = len (train_dataloader env s);
          optimizer_obj = \<lparr>sgd_lr = lr (optimizer (args s)),
                           sgd_momentum = momentum (optimizer (args s)),
                           sgd_weight_decay = weight_decay (optimizer (args s))\<rparr>;
          scheduler = \<lparr>scheduled = optimizer_obj,
                       step_size = lr_step_size (optimizer (args s)) * int epoch_per_iteration,
                       gamma = lr_gamma (optimizer (args s))\<rparr>
      in ([optimizer_obj], [scheduler]))"

record ModelCheckpoint =
  monitor :: string
  mode :: string
  dirpath :: string
  filename :: string

definition configure_callbacks ::
  "('o, 't) environment \<Rightarrow> ('x, 'o, 't) classifier \<Rightarrow> ModelCheckpoint list" where
  "configure_callbacks env s =
     (let cwd = original_cwd env;
          checkpoint_callback =
            \<lparr>monitor = ''val_loss'',
             mode = ''min'',
             dirpath = os_path_join cwd [path2weight (args s)],
             filename = exp_name (args s) @ ''_mobilenetv2_best''\<rparr>
      in [checkpoint_callback])"

subsection \<open>The methods as calls on one object\<close>

text \<open>
  A call of one of the methods with its arguments, and the state of \<^verbatim>\<open>self\<close> when
  the call has returned or raised. The methods that neither assign an attribute nor
  call \<^verbatim>\<open>self.log\<close> are the functions above, which return no state.
\<close>

datatype ('x, 't) method_call =
    Forward 'x
  | TrainingStep "'x \<times> 't" nat
  | TrainingStepEnd "string \<rightharpoonup> real list"
  | ValidationStep "'x \<times> 't" nat
  | ValidationEpochEnd "batch_output list"
  | TestStep "'x \<times> 't" nat
  | TestEpochEnd "batch_output list"
  | ConfigureOptimizers
  | ConfigureCallbacks
  | TrainDataloader
  | ValDataloader
  | TestDataloader

fun self_after ::
  "('o, 't) environment \<Rightarrow> ('x, 'o, 't) classifier \<Rightarrow> ('x, 't) method_call \<Rightarrow>
     ('x, 'o, 't) classifier" where
  "self_after env s (Forward x) = s"
| "self_after env s (TrainingStep batch batch_nb) = snd (training_step env s batch batch_nb)"
| "self_after env s (TrainingStepEnd batch_parts) = s"
| "self_after env s (ValidationStep batch batch_idx) = s"
| "self_after env s (ValidationEpochEnd outputs) = snd (validation_epoch_end s outputs)"
| "self_after env s (TestStep batch batch_idx) = s"
| "self_after env s (TestEpochEnd outputs) = snd (test_epoch_end s outputs)"
| "self_after env s ConfigureOptimizers = s"
| "self_after env s ConfigureCallbacks = s"
| "self_after env s TrainDataloader = s"
| "self_after env s ValDataloader = s"
| "self_after env s TestDataloader = s"

section \<open>main\<close>

subsection \<open>The elapsed time\<close>

text \<open>
  A Python float is a binary64 number: a real that the rounding below leaves as it is.
  The exponent of a positive real \<open>x\<close> is the integer \<open>e\<close> with \<open>2^e \<le> x < 2^(e+1)\<close>,
  found by halving or doubling.
\<close>

function floor_log2_up :: "real \<Rightarrow> int" where
  "floor_log2_up x = (if x < 2 then 0 else floor_log2_up (x / 2) + 1)"
  by pat_completeness auto
termination
proof (relation "measure (\<lambda>x. nat \<lfloor>x\<rfloor>)")
  fix x :: real
  assume "\<not> x < 2"
  then have "\<lfloor>x / 2\<rfloor> < \<lfloor>x\<rfloor>" "0 < \<lfloor>x\<rfloor>" by linarith+
  then show "(x / 2, x) \<in> measure (\<lambda>x. nat \<lfloor>x\<rfloor>)" by simp
qed simp

function floor_log2_down :: "real \<Rightarrow> int" where
  "floor_log2_down x = (if x \<le> 0 \<or> 1 \<le> x then 0 else floor_log2_down (2 * x) - 1)"
  by pat_completeness auto
termination
proof (relation "measure (\<lambda>x. nat \<lceil>1 / x\<rceil>)")
  fix x :: real
  assume "\<not> (x \<le> 0 \<or> 1 \<le> x)"
  then have x: "0 < x" "x < 1" by simp_all
  define y where "y = 1 / x"
  have "1 < y" using x by (simp add: y_def)
  then have two: "2 \<le> \<lceil>y\<rceil>" by linarith
  have "y / 2 \<le> of_int \<lceil>y\<rceil> / 2" by (simp add: le_of_int_ceiling)
  also have "\<dots> \<le> of_int (\<lceil>y\<rceil> - 1)" using two by simp
  finally have "\<lceil>y / 2\<rceil> \<le> \<lceil>y\<rceil> - 1" by (simp only: ceiling_le_iff)
  with two have "nat \<lceil>y / 2\<rceil> < nat \<lceil>y\<rceil>" by simp
  moreover have "1 / (2 * x) = y / 2" by (simp add: y_def)
  ultimately have "nat \<lceil>1 / (2 * x)\<rceil> < nat \<lceil>1 / x\<rceil>" by (simp only: y_def)
  then show "(2 * x, x) \<in> measure (\<lambda>x. nat \<lceil>1 / x\<rceil>)" by (simp only: in_measure)
qed simp

declare floor_log2_up.simps [simp del] floor_log2_down.simps [simp del]

definition floor_log2 :: "real \<Rightarrow> int" where
  "floor_log2 x = (if 1 \<le> x then floor_log2_up x else floor_log2_down x)"

text \<open>
  Rounding to the nearest binary64 number, ties to the even significand: 53 significant
  bits, and the spacing \<open>2^-1074\<close> of the subnormal numbers at the least. Results
  beyond the largest finite number (overflow) are outside this model; the divisions and
  remainders of the elapsed time cannot overflow.
\<close>

definition round_even :: "real \<Rightarrow> int" where
  "round_even x =
     (let f = \<lfloor>x\<rfloor>; d = x - of_int f
      in if d < 1 / 2 then f else if 1 / 2 < d then f + 1 else if even f then f else f + 1)"

definition binary64 :: "real \<Rightarrow> real" where
  "binary64 x =
     (if x = 0 then 0
      else (let e = max (floor_log2 \<bar>x\<bar> - 52) (- 1074)
            in sgn x * of_int (round_even (\<bar>x\<bar> / 2 powi e)) * 2 powi e))"

definition is_binary64 :: "real \<Rightarrow> bool" where
  "is_binary64 x = (binary64 x = x \<and> \<bar>x\<bar> < 2 ^ 1024)"

text \<open>
  \<^verbatim>\<open>int(x)\<close> truncates a float towards zero. \<^verbatim>\<open>x / y\<close> on floats is the rounded
  quotient. \<^verbatim>\<open>x % y\<close> on floats is C's \<^verbatim>\<open>fmod\<close>, which is exact, moved by \<open>y\<close>
  (a rounded addition) when its sign differs from the divisor's. Both are only called
  with the divisors 3600 and 60.
\<close>

definition py_int :: "real \<Rightarrow> int" where
  "py_int x = (if x < 0 then \<lceil>x\<rceil> else \<lfloor>x\<rfloor>)"

definition float_truediv :: "real \<Rightarrow> real \<Rightarrow> real" where
  "float_truediv x y = binary64 (x / y)"

definition float_mod :: "real \<Rightarrow> real \<Rightarrow> real" where
  "float_mod x y =
     (let m = x - y * of_int (py_int (x / y))
      in if m \<noteq> 0 \<and> (y < 0) \<noteq> (m < 0) then binary64 (m + y) else m)"

definition elapsed_fields :: "real \<Rightarrow> int \<times> int \<times> int" where
  \<comment> \<open>the three arguments of \<^verbatim>\<open>format\<close>\<close>
  "elapsed_fields interval =
     (py_int (float_truediv interval 3600),
      py_int (float_truediv (float_mod interval 3600) 60),
      py_int (float_mod (float_mod interval 3600) 60))"

text \<open>The format \<^verbatim>\<open>{:d}\<close> of an int: its decimal digits, after a minus sign if negative.\<close>

fun digits :: "nat \<Rightarrow> string" where
  "digits n =
     (if n < 10 then [''0123456789'' ! n]
      else digits (n div 10) @ [''0123456789'' ! (n mod 10)])"

declare digits.simps [simp del]

definition format_d :: "int \<Rightarrow> string" where
  "format_d i = (if i < 0 then ''-'' @ digits (nat (- i)) else digits (nat i))"

definition elapsed_message :: "real \<Rightarrow> string" where
  "elapsed_message interval =
     (let (h, m, sec) = elapsed_fields interval
      in ''elapsed time = '' @ format_d h @ ''h '' @ format_d m @ ''m '' @ format_d sec @ ''s'')"

subsection \<open>The run\<close>

text \<open>
  \<^verbatim>\<open>main\<close> is a straight line of calls into the libraries, with one loop (over the
  keys of the configuration, in \<^verbatim>\<open>write_log_base\<close>) and no handler: a call that
  raises ends the run. The calls are listed in program order; which of them raise, and
  what the clock reads (two floats), is the environment's. A \<open>log_param\<close> carries its key (the
  value logged with it is \<^verbatim>\<open>args[key]\<close>), and building the \<^verbatim>\<open>ImageClassifier\<close>
  is no library call.
\<close>

record trainer_config =
  checkpoint_callback :: bool
  gpus :: nat
  max_epochs :: nat
  flush_logs_every_n_steps :: int
  log_every_n_steps :: int
  accelerator :: string
  precision :: nat
  deterministic :: bool
  num_sanity_val_steps :: int

datatype call =
    MlflowWriter string
  | log_param string
  | log_params_from_omegaconf_dict
  | log_artifact string
  | CustomMlFlowLogger
  | seed_everything int
  | mobilenet_v2 bool nat
  | CrossEntropyLoss
  | Trainer trainer_config
  | time_time
  | trainer_fit
  | trainer_test
  | move_mlruns
  | print string

record run_environment =
  getcwd :: string
  config_keys :: "string list"
  starttime :: real
  endtime :: real
  raises :: "nat \<Rightarrow> bool"

definition write_log_base :: "run_environment \<Rightarrow> call list" where
  "write_log_base env =
     map log_param (config_keys env) @
     [log_params_from_omegaconf_dict,
      log_artifact (os_path_join (getcwd env) [''.hydra/config.yaml'']),
      log_artifact (os_path_join (getcwd env) [''.hydra/hydra.yaml'']),
      log_artifact (os_path_join (getcwd env) [''.hydra/overrides.yaml''])]"

definition main_calls :: "run_environment \<Rightarrow> config \<Rightarrow> call list" where
  "main_calls env a =
     [MlflowWriter (exp_name a)] @
     write_log_base env @
     [CustomMlFlowLogger,
      seed_everything (seed a),
      mobilenet_v2 True (num_classes a),
      CrossEntropyLoss,
      Trainer \<lparr>checkpoint_callback = False, gpus = 2, max_epochs = epochs a,
               flush_logs_every_n_steps = print_freq a, log_every_n_steps = log_freq a,
               accelerator = ''dp'', precision = (if apex a then 16 else 32),
               deterministic = True, num_sanity_val_steps = - 1\<rparr>,
      time_time,
      trainer_fit,
      trainer_test,
      move_mlruns,
      time_time,
      print (elapsed_message (binary64 (endtime env - starttime env)))]"

text \<open>The calls that have returned when the run ends: those before the first that raises.\<close>

fun completed :: "(nat \<Rightarrow> bool) \<Rightarrow> nat \<Rightarrow> call list \<Rightarrow> call list" where
  "completed r i [] = []"
| "completed r i (c # cs) = (if r i then [] else c # completed r (Suc i) cs)"

definition main :: "run_environment \<Rightarrow> config \<Rightarrow> call list" where
  "main env a = completed (raises env) 0 (main_calls env a)"

section \<open>Means\<close>

text \<open>
  The arithmetic mean of a list of values, and the per-sample view of a validation
  epoch: a batch is the list of the per-sample values of a metric, the value of a batch
  is their mean (the reduction of \<^verbatim>\<open>nn.CrossEntropyLoss()\<close> as \<^verbatim>\<open>main\<close> builds it),
  and the true mean runs over the samples of all batches. \<open>tensors\<close> and
  \<open>float_triple\<close> describe the two kinds of output triples: three 0-dim tensors, and
  three plain floats.
\<close>

definition mean :: "real list \<Rightarrow> real" where
  "mean xs = sum_list xs / of_nat (length xs)"

definition sample_mean :: "real list list \<Rightarrow> real" where
  "sample_mean batches = mean (concat batches)"

definition tensors :: "real \<times> real \<times> real \<Rightarrow> batch_output" where
  "tensors v = (Tensor (fst v), Tensor (fst (snd v)), Tensor (snd (snd v)))"

fun is_float :: "pyval \<Rightarrow> bool" where
  "is_float (PyFloat x) = True"
| "is_float _ = False"

definition float_triple :: "batch_output \<Rightarrow> bool" where
  "float_triple out = (is_float (fst out) \<and> is_float (fst (snd out)) \<and> is_float (snd (snd out)))"

text \<open>
  A validation batch seen from its samples: the per-sample losses and the two
  accuracies of the batch. Its output holds the mean loss, as tensors.
\<close>

definition batch_value :: "real list \<times> real \<times> real \<Rightarrow> batch_output" where
  "batch_value b = tensors (mean (fst b), snd b)"

definition last_logged :: "string \<Rightarrow> ('x, 'o, 't) classifier \<Rightarrow> pyval option" where
  \<comment> \<open>the value most recently logged under a name\<close>
  "last_logged name s = map_of (rev (logged s)) name"

text \<open>The directory \<open>name\<close> directly below the directory \<open>base\<close>.\<close>

definition subdir :: "string \<Rightarrow> string \<Rightarrow> string" where
  "subdir base name =
     (if base = [] \<or> last base = CHR ''/'' then base @ name else base @ ''/'' @ name)"

section \<open>A concrete run\<close>

definition example_args :: config where
  "example_args =
     \<lparr>exp_name = ''animeface'', path2db = ''data/animeface'', path2weight = ''weight'',
      image_size = 256, crop_size = 224, batch_size = 64, num_classes = 176, epochs = 90,
      seed = 0, log_freq = 10, print_freq = 100, apex = False,
      optimizer = \<lparr>lr = 0.0045, momentum = 0.9, weight_decay = 0.00004,
                   lr_step_size = 1, lr_gamma = 0.98\<rparr>\<rparr>"

definition example_classifier :: "(nat, real, nat) classifier" where
  "example_classifier = init example_args (\<lambda>x. real x) (\<lambda>out target. out / 2)"

definition example_env :: "(real, nat) environment" where
  "example_env =
     \<lparr>original_cwd = ''/home/user/project'', cpu_count = Some 8,
      accuracy = (\<lambda>out target. (50, 100))\<rparr>"

definition example_run :: run_environment where
  "example_run =
     \<lparr>getcwd = ''/home/user/project/outputs'', config_keys = [''exp_name'', ''seed''],
      starttime = 100, endtime = 3825.5, raises = (\<lambda>i. False)\<rparr>"

definition example_before :: "call list" where
  \<comment> \<open>the calls of the example run that come before \<^verbatim>\<open>writer.move_mlruns()\<close>\<close>
  "example_before =
     [MlflowWriter ''animeface'', log_param ''exp_name'', log_param ''seed'',
      log_params_from_omegaconf_dict,
      log_artifact ''/home/user/project/outputs/.hydra/config.yaml'',
      log_artifact ''/home/user/project/outputs/.hydra/hydra.yaml'',
      log_artifact ''/home/user/project/outputs/.hydra/overrides.yaml'',
      CustomMlFlowLogger, seed_everything 0, mobilenet_v2 True 176, CrossEntropyLoss,
      Trainer \<lparr>checkpoint_callback = False, gpus = 2, max_epochs = 90,
               flush_logs_every_n_steps = 100, log_every_n_steps = 10,
               accelerator = ''dp'', precision = 32, deterministic = True,
               num_sanity_val_steps = - 1\<rparr>,
      time_time, trainer_fit, trainer_test]"

section \<open>The validation epoch\<close>

subsection \<open>On tensors\<close>

lemma collect_tensors:
  "collect (map tensors vs) l a1 a5 =
     Inr (l @ map (\<lambda>v. NdArray (fst v)) vs,
          a1 @ map (\<lambda>v. NdArray (fst (snd v))) vs,
          a5 @ map (\<lambda>v. NdArray (snd (snd v))) vs)"
  by (induction vs arbitrary: l a1 a5) (simp_all add: tensors_def cpu_numpy_def)

lemma foldl_py_add_NdArray:
  "foldl py_add (NpSum (NdArray a)) (map (\<lambda>v. NdArray (f v)) vs) =
     NpSum (NdArray (a + sum_list (map f vs)))"
  by (induction vs arbitrary: a) (simp_all add: add.assoc)

lemma py_sum_NdArray:
  "vs \<noteq> [] \<Longrightarrow> py_sum (map (\<lambda>v. NdArray (f v)) vs) = NpSum (NdArray (sum_list (map f vs)))"
  by (cases vs) (simp_all add: py_sum_def foldl_py_add_NdArray)

text \<open>
  On a non-empty list of triples of tensors the three means are logged, in the order
  loss, top-1, top-5, and returned when the module is testing.
\<close>

lemma validation_epoch_end_tensors:
  assumes "vs \<noteq> []"
  shows "validation_epoch_end s (map tensors vs) =
     (Inr (if testing s
           then Some [(''val_loss'', Numpy (NdArray (mean (map fst vs)))),
                      (''val_acc1'', Numpy (NdArray (mean (map (\<lambda>v. fst (snd v)) vs)))),
                      (''val_acc5'', Numpy (NdArray (mean (map (\<lambda>v. snd (snd v)) vs))))]
           else None),
      s\<lparr>logged := logged s @
           [(''val_loss'', Numpy (NdArray (mean (map fst vs)))),
            (''val_acc1'', Numpy (NdArray (mean (map (\<lambda>v. fst (snd v)) vs)))),
            (''val_acc5'', Numpy (NdArray (mean (map (\<lambda>v. snd (snd v)) vs))))]\<rparr>)"
  using assms
  by (simp add: validation_epoch_end_def collect_tensors py_sum_NdArray mean_def self_log_def)



subsection \<open>On the outputs of the validation step\<close>

lemma validation_step_floats: "float_triple (validation_step env s batch batch_idx)"
  by (simp add: validation_step_def float_triple_def Let_def split: prod.splits)

lemma collect_float_head:
  "is_float (fst out) \<Longrightarrow> collect (out # outs) l a1 a5 = Inl AttributeError"
  by (cases "fst out") (simp_all add: cpu_numpy_def)

text \<open>
  C8: for every non-empty list of outputs that are triples of plain Python floats, as
  \<^verbatim>\<open>validation_step\<close> returns them, \<^verbatim>\<open>validation_epoch_end\<close> fails before it
  computes any average: it raises an AttributeError, since a float has no \<^verbatim>\<open>.cpu()\<close>,
  and has logged nothing.
\<close>

theorem validation_epoch_end_floats_fail:
  assumes "outputs \<noteq> []" and "list_all float_triple outputs"
  shows "validation_epoch_end s outputs = (Inl AttributeError, s)"
  using assms
  by (cases outputs)
    (simp_all add: validation_epoch_end_def float_triple_def collect_float_head
      del: collect.simps)

theorem validation_epoch_end_floats_fail_witness:
  "[validation_step example_env example_classifier (4, 0) 0,
    validation_step example_env example_classifier (6, 1) 1] =
     [(PyFloat 2, PyFloat 50, PyFloat 100), (PyFloat 3, PyFloat 50, PyFloat 100)] \<and>
   list_all float_triple [(PyFloat 2, PyFloat 50, PyFloat 100), (PyFloat 3, PyFloat 50, PyFloat 100)] \<and>
   validation_epoch_end example_classifier
     [(PyFloat 2, PyFloat 50, PyFloat 100), (PyFloat 3, PyFloat 50, PyFloat 100)] =
     (Inl AttributeError, example_classifier)"
proof -
  let ?outputs = "[(PyFloat 2, PyFloat 50, PyFloat 100), (PyFloat 3, PyFloat 50, PyFloat 100)]"
  have steps: "[validation_step example_env example_classifier (4, 0) 0,
    validation_step example_env example_classifier (6, 1) 1] = ?outputs"
    by (simp add: validation_step_def forward_def example_env_def example_classifier_def
        init_def)
  have nonempty: "?outputs \<noteq> []" by simp
  have all_floats: "list_all float_triple ?outputs" by (simp add: float_triple_def)
  from validation_epoch_end_floats_fail[OF nonempty all_floats, of example_classifier]
    steps all_floats
  show ?thesis by simp
qed

text \<open>
  C10: on the empty list of outputs \<^verbatim>\<open>validation_epoch_end\<close>, and with it
  \<^verbatim>\<open>test_epoch_end\<close>, divides the int 0 by the length 0: it raises a
  ZeroDivisionError instead of returning, and logs nothing.
\<close>

theorem validation_epoch_end_empty:
  "validation_epoch_end s [] = (Inl ZeroDivisionError, s) \<and>
   test_epoch_end s [] = (Inl ZeroDivisionError, s)"
  by (simp add: test_epoch_end_def validation_epoch_end_def py_sum_def)

text \<open>
  C2: the averaging does not account for a smaller final batch. There is a sequence of
  validation batches, all of \<open>n\<close> samples but the last, which has fewer, for which the
  val_loss that \<^verbatim>\<open>validation_epoch_end\<close> logs (the unweighted mean of the per-batch
  means) differs from the mean loss over all samples. Two batches do: one with the
  per-sample losses 2 and 4, one with the single loss 9.
\<close>

theorem unweighted_mean_differs_from_sample_mean:
  "\<exists>batches n loss.
     butlast batches \<noteq> [] \<and> list_all (\<lambda>b. length (fst b) = n) (butlast batches) \<and>
     0 < length (fst (last batches)) \<and> length (fst (last batches)) < n \<and>
     last_logged ''val_loss'' (snd (validation_epoch_end s (map batch_value batches))) =
       Some (Numpy (NdArray loss)) \<and>
     loss = mean (map (\<lambda>b. mean (fst b)) batches) \<and>
     loss \<noteq> sample_mean (map fst batches)"
proof -
  let ?bs = "[([2, 4], 50, 100), ([9], 100, 100)] :: (real list \<times> real \<times> real) list"
  have outputs: "map batch_value ?bs = map tensors [(3, 50, 100), (9, 100, 100)]"
    by (simp add: batch_value_def mean_def)
  have "last_logged ''val_loss'' (snd (validation_epoch_end s (map batch_value ?bs))) =
          Some (Numpy (NdArray 6))"
    unfolding outputs
    using validation_epoch_end_tensors[of "[(3, 50, 100), (9, 100, 100)]" s]
    by (simp add: last_logged_def mean_def)
  moreover have "(6::real) = mean (map (\<lambda>b. mean (fst b)) ?bs)"
    by (simp add: mean_def)
  moreover have "(6::real) \<noteq> sample_mean (map fst ?bs)"
    by (simp add: sample_mean_def mean_def)
  ultimately show ?thesis
    by (intro exI[of _ ?bs] exI[of _ 2] exI[of _ 6]) simp
qed

section \<open>The test path\<close>

text \<open>
  C9: the test path is the validation path. \<^verbatim>\<open>test_step\<close> returns what
  \<^verbatim>\<open>validation_step\<close> returns on the same batch, \<^verbatim>\<open>test_epoch_end\<close> does what
  \<^verbatim>\<open>validation_epoch_end\<close> does on the same outputs (result and state), and
  \<^verbatim>\<open>test_dataloader\<close> builds the loader that \<^verbatim>\<open>val_dataloader\<close> builds.
\<close>

theorem test_path_is_validation_path:
  "test_step env s batch batch_idx = validation_step env s batch batch_idx \<and>
   test_epoch_end s outputs = validation_epoch_end s outputs \<and>
   test_dataloader env s = val_dataloader env s"
  by (simp add: test_step_def test_epoch_end_def test_dataloader_def val_dataloader_def)

section \<open>The configuration is read only\<close>

text \<open>
  C3: every method of the classifier (forward, training_step, training_step_end,
  validation_step, validation_epoch_end, test_step, test_epoch_end,
  configure_optimizers, configure_callbacks and the three data loaders) leaves
  \<^verbatim>\<open>self.args\<close> as it was, whether it returns or raises.
\<close>

theorem args_unchanged: "args (self_after env s c) = args s"
proof (cases c)
  case (TrainingStep batch batch_nb)
  then show ?thesis
    by (simp add: training_step_def self_log_def Let_def split: prod.splits)
next
  case (ValidationEpochEnd outputs)
  then show ?thesis
    by (simp add: validation_epoch_end_def self_log_def Let_def split: sum.splits prod.splits)
next
  case (TestEpochEnd outputs)
  then show ?thesis
    by (simp add: test_epoch_end_def validation_epoch_end_def self_log_def Let_def
        split: sum.splits prod.splits)
qed simp_all

section \<open>Data loaders and the checkpoint callback\<close>

text \<open>
  C4: \<^verbatim>\<open>train_dataloader\<close> reads the directory train below the configured path2db
  (joined to the original working directory) with the training transform, shuffles and
  drops the last incomplete batch; \<^verbatim>\<open>val_dataloader\<close> and \<^verbatim>\<open>test_dataloader\<close> read
  the directory val with the validation transform, do not shuffle and keep the last
  batch; all three use the configured batch size.
\<close>

theorem dataloader_settings:
  "image_dir (dataset (train_dataloader env s)) =
     subdir (os_path_join (original_cwd env) [path2db (args s)]) ''train'' \<and>
   transform_of (dataset (train_dataloader env s)) = train_transform s \<and>
   shuffle (train_dataloader env s) \<and> drop_last (train_dataloader env s) \<and>
   loader_batch_size (train_dataloader env s) = batch_size (args s) \<and>
   image_dir (dataset (val_dataloader env s)) =
     subdir (os_path_join (original_cwd env) [path2db (args s)]) ''val'' \<and>
   transform_of (dataset (val_dataloader env s)) = valid_transform s \<and>
   \<not> shuffle (val_dataloader env s) \<and> \<not> drop_last (val_dataloader env s) \<and>
   loader_batch_size (val_dataloader env s) = batch_size (args s) \<and>
   image_dir (dataset (test_dataloader env s)) =
     subdir (os_path_join (original_cwd env) [path2db (args s)]) ''val'' \<and>
   transform_of (dataset (test_dataloader env s)) = valid_transform s \<and>
   \<not> shuffle (test_dataloader env s) \<and> \<not> drop_last (test_dataloader env s) \<and>
   loader_batch_size (test_dataloader env s) = batch_size (args s)"
  by (simp add: train_dataloader_def val_dataloader_def test_dataloader_def dataloader_def
      os_path_join_def join_step_def subdir_def)

text \<open>
  C5: \<^verbatim>\<open>configure_callbacks\<close> returns exactly one checkpoint callback: it monitors
  val_loss with mode min, writes to the original working directory joined with
  path2weight, and names the file after the experiment, followed by _mobilenetv2_best.
\<close>

theorem configure_callbacks_checkpoint:
  "configure_callbacks env s =
     [\<lparr>monitor = ''val_loss'', mode = ''min'',
       dirpath = os_path_join (original_cwd env) [path2weight (args s)],
       filename = exp_name (args s) @ ''_mobilenetv2_best''\<rparr>]"
  by (simp add: configure_callbacks_def)

section \<open>The run of main\<close>

lemma completed_prefix: "\<exists>rest. cs = completed r i cs @ rest"
  by (induction cs arbitrary: i) simp_all

lemma only_occurrence:
  "xs @ m # ys = B @ m # C \<Longrightarrow> m \<notin> set B \<Longrightarrow> m \<notin> set C \<Longrightarrow> xs = B"
proof (induction B arbitrary: xs)
  case Nil
  then show ?case by (cases xs) auto
next
  case (Cons b B)
  then show ?case by (cases xs) auto
qed

lemma main_calls_split:
  "\<exists>before after.
     main_calls env a = (before @ [trainer_fit, trainer_test]) @ move_mlruns # after \<and>
     move_mlruns \<notin> set before \<and> move_mlruns \<notin> set after"
proof -
  let ?before = "[MlflowWriter (exp_name a)] @ write_log_base env @
     [CustomMlFlowLogger, seed_everything (seed a), mobilenet_v2 True (num_classes a),
      CrossEntropyLoss,
      Trainer \<lparr>checkpoint_callback = False, gpus = 2, max_epochs = epochs a,
               flush_logs_every_n_steps = print_freq a, log_every_n_steps = log_freq a,
               accelerator = ''dp'', precision = (if apex a then 16 else 32),
               deterministic = True, num_sanity_val_steps = - 1\<rparr>,
      time_time]"
  let ?after = "[time_time, print (elapsed_message (binary64 (endtime env - starttime env)))]"
  have "main_calls env a = (?before @ [trainer_fit, trainer_test]) @ move_mlruns # ?after"
    by (simp add: main_calls_def)
  moreover have "move_mlruns \<notin> set ?before"
    by (auto simp: write_log_base_def)
  moreover have "move_mlruns \<notin> set ?after"
    by simp
  ultimately show ?thesis by blast
qed

lemma example_main:
  "main example_run example_args =
     example_before @ move_mlruns # [time_time, print ''elapsed time = 1h 2m 5s'']"
  by (simp add: main_def main_calls_def example_run_def example_args_def write_log_base_def
      os_path_join_def join_step_def elapsed_message_def elapsed_fields_def py_int_def
      float_truediv_def float_mod_def binary64_def floor_log2_def floor_log2_up.simps
      floor_log2_down.simps round_even_def format_d_def digits.simps example_before_def)

text \<open>
  C6: \<^verbatim>\<open>main\<close> relocates the run artifacts only after \<^verbatim>\<open>trainer.fit\<close> and
  \<^verbatim>\<open>trainer.test\<close> have completed. Wherever \<^verbatim>\<open>writer.move_mlruns()\<close> stands among
  the completed calls of a run, the two calls completed just before it are the fit and
  the test, in this order, and no relocation precedes them.
\<close>

theorem move_mlruns_after_fit_and_test:
  assumes "main env a = pre @ move_mlruns # post"
  shows "\<exists>before. pre = before @ [trainer_fit, trainer_test] \<and> move_mlruns \<notin> set before"
proof -
  obtain rest where "main_calls env a = main env a @ rest"
    unfolding main_def using completed_prefix by blast
  with assms have run: "main_calls env a = pre @ move_mlruns # (post @ rest)"
    by simp
  obtain before after where
    calls: "main_calls env a = (before @ [trainer_fit, trainer_test]) @ move_mlruns # after"
    and before: "move_mlruns \<notin> set before" and after: "move_mlruns \<notin> set after"
    using main_calls_split by blast
  from run calls
  have same: "pre @ move_mlruns # (post @ rest) =
          (before @ [trainer_fit, trainer_test]) @ move_mlruns # after"
    by simp
  have not_yet: "move_mlruns \<notin> set (before @ [trainer_fit, trainer_test])"
    using before by simp
  have "pre = before @ [trainer_fit, trainer_test]"
    by (rule only_occurrence[OF same not_yet after])
  with before show ?thesis by blast
qed

theorem move_mlruns_after_fit_and_test_witness:
  "main example_run example_args =
     example_before @ move_mlruns # [time_time, print ''elapsed time = 1h 2m 5s''] \<and>
   (\<exists>before. example_before = before @ [trainer_fit, trainer_test] \<and>
      move_mlruns \<notin> set before)"
  using move_mlruns_after_fit_and_test[OF example_main] example_main by simp

section \<open>The elapsed time\<close>

subsection \<open>Exponents and rounding\<close>

lemma floor_log2_up_bounds:
  "1 \<le> x \<Longrightarrow> 2 powi floor_log2_up x \<le> x \<and> x < 2 powi (floor_log2_up x + 1)"
proof (induction x rule: floor_log2_up.induct)
  case (1 x)
  show ?case
  proof (cases "x < 2")
    case True
    then have "floor_log2_up x = 0" by (simp add: floor_log2_up.simps)
    then show ?thesis using True "1.prems" by simp
  next
    case False
    then have half: "1 \<le> x / 2" by simp
    have eq: "floor_log2_up x = floor_log2_up (x / 2) + 1"
      using False by (subst floor_log2_up.simps) simp
    have up: "(2::real) powi (floor_log2_up (x / 2) + 1) = 2 powi floor_log2_up (x / 2) * 2"
      and up2: "(2::real) powi (floor_log2_up (x / 2) + 1 + 1) =
                 2 powi floor_log2_up (x / 2) * 2 * 2"
      by (simp_all add: power_int_add)
    from "1.IH"[OF False half]
    show ?thesis unfolding eq up up2 by simp
  qed
qed

lemma floor_log2_down_bounds:
  "0 < x \<Longrightarrow> x < 1 \<Longrightarrow>
     2 powi floor_log2_down x \<le> x \<and> x < 2 powi (floor_log2_down x + 1)"
proof (induction x rule: floor_log2_down.induct)
  case (1 x)
  have step: "\<not> (x \<le> 0 \<or> 1 \<le> x)" using "1.prems" by simp
  have eq: "floor_log2_down x = floor_log2_down (2 * x) - 1"
    using step by (subst floor_log2_down.simps) simp
  show ?case
  proof (cases "2 * x < 1")
    case True
    have "0 < 2 * x" using "1.prems" by simp
    from "1.IH"[OF step this True]
    have lo: "2 powi floor_log2_down (2 * x) \<le> 2 * x"
      and hi: "2 * x < 2 powi (floor_log2_down (2 * x) + 1)" by simp_all
    define p where "p = (2::real) powi floor_log2_down (2 * x)"
    have h1: "(2::real) powi (floor_log2_down (2 * x) - 1) = p / 2"
      and h2: "(2::real) powi (floor_log2_down (2 * x) - 1 + 1) = p"
      and h3: "(2::real) powi (floor_log2_down (2 * x) + 1) = p * 2"
      by (simp_all add: power_int_diff power_int_add p_def)
    from lo hi have "p / 2 \<le> x \<and> x < p" unfolding h3 p_def[symmetric] by linarith
    then show ?thesis unfolding eq h1 h2 .
  next
    case False
    then have "floor_log2_down (2 * x) = 0" by (simp add: floor_log2_down.simps)
    then show ?thesis unfolding eq using False "1.prems" by (simp add: power_int_minus)
  qed
qed

lemma floor_log2_bounds:
  assumes "0 < x"
  shows "2 powi floor_log2 x \<le> x" and "x < 2 powi (floor_log2 x + 1)"
  using assms floor_log2_up_bounds[of x] floor_log2_down_bounds[of x]
  by (auto simp: floor_log2_def not_le)

lemma round_even_error: "\<bar>of_int (round_even x) - x\<bar> \<le> 1 / 2"
  unfolding round_even_def Let_def by (auto; linarith)

lemma round_even_ge: "of_int n \<le> x \<Longrightarrow> n \<le> round_even x"
proof -
  assume "of_int n \<le> x"
  then have "n \<le> \<lfloor>x\<rfloor>" by (simp add: le_floor_iff)
  moreover have "\<lfloor>x\<rfloor> \<le> round_even x" by (simp add: round_even_def Let_def)
  ultimately show ?thesis by simp
qed

lemma binary64_pos:
  "0 < x \<Longrightarrow> binary64 x =
     of_int (round_even (x / 2 powi max (floor_log2 x - 52) (- 1074))) *
       2 powi max (floor_log2 x - 52) (- 1074)"
  by (simp add: binary64_def Let_def)

lemma binary64_upper:
  assumes "0 < x"
  shows "binary64 x \<le> x + 2 powi max (floor_log2 x - 52) (- 1074) / 2"
proof -
  define e where "e = max (floor_log2 x - 52) (- 1074)"
  have p: "0 < (2::real) powi e" by simp
  have "of_int (round_even (x / 2 powi e)) \<le> x / 2 powi e + 1 / 2"
    using round_even_error[of "x / 2 powi e"] by linarith
  then have "of_int (round_even (x / 2 powi e)) * 2 powi e \<le> (x / 2 powi e + 1 / 2) * 2 powi e"
    using p by (simp only: mult_le_cancel_right_pos)
  also have "\<dots> = x + 2 powi e / 2" using p by (simp add: algebra_simps)
  finally show ?thesis using assms by (simp add: binary64_pos e_def)
qed

lemma binary64_ge_int:
  assumes "0 < x" and "x < 2 ^ 53" and "of_int k \<le> x"
  shows "of_int k \<le> binary64 x"
proof -
  define e where "e = max (floor_log2 x - 52) (- 1074)"
  have p: "0 < (2::real) powi e" by simp
  have "(2::real) powi floor_log2 x < 2 powi 53"
    using floor_log2_bounds(1)[OF assms(1)] assms(2) by simp
  then have "floor_log2 x < 53"
    by (rule power_int_le_imp_less_exp[rotated]) simp_all
  then have e: "e \<le> 0" by (simp add: e_def)
  define n where "n = nat (- e)"
  have pe: "(2::real) powi e = 1 / 2 ^ n"
  proof -
    have "e = - int n" using e by (simp add: n_def)
    then show ?thesis by (simp add: power_int_minus_divide)
  qed
  have scaled: "of_int k / 2 powi e = (of_int (k * 2 ^ n) :: real)"
    by (simp add: pe)
  have "of_int k / 2 powi e \<le> x / 2 powi e"
    using assms(3) p by (simp add: divide_right_mono)
  then have "(of_int (k * 2 ^ n) :: real) \<le> x / 2 powi e"
    by (simp only: scaled)
  then have "k * 2 ^ n \<le> round_even (x / 2 powi e)"
    by (rule round_even_ge)
  then have "(of_int (k * 2 ^ n) :: real) \<le> of_int (round_even (x / 2 powi e))"
    by (simp only: of_int_le_iff)
  then have "(of_int (k * 2 ^ n) :: real) * 2 powi e \<le>
        of_int (round_even (x / 2 powi e)) * 2 powi e"
    using p by (simp only: mult_le_cancel_right_pos)
  moreover have "(of_int (k * 2 ^ n) :: real) * 2 powi e = of_int k"
    by (simp add: pe)
  ultimately have "(of_int k :: real) \<le> of_int (round_even (x / 2 powi e)) * 2 powi e"
    by (simp only:)
  then show ?thesis unfolding binary64_pos[OF assms(1)] e_def[symmetric] .
qed


lemma floor_log2_less_53:
  assumes "0 < x" and "x < 2 ^ 53"
  shows "floor_log2 x < 53"
proof -
  have "(2::real) powi floor_log2 x < 2 powi 53"
    using floor_log2_bounds(1)[OF assms(1)] assms(2) by simp
  then show ?thesis
    by (rule power_int_le_imp_less_exp[rotated]) simp_all
qed

lemma power_int_nonpos:
  assumes "E \<le> 0"
  shows "(2::real) powi E = 1 / 2 ^ nat (- E)"
proof -
  have "E = - int (nat (- E))" using assms by simp
  then have "(2::real) powi E = 2 powi (- int (nat (- E)))" by simp
  then show ?thesis by (simp only: power_int_minus_divide power_int_of_nat)
qed

lemma binary64_grid:
  assumes "is_binary64 a" and "0 \<le> a" and "a < 2 ^ 53"
  shows "\<exists>E N. E \<le> 0 \<and> a = of_int N * 2 powi E \<and> a < 2 powi (E + 53)"
proof (cases "a = 0")
  case True
  then have "(0::int) \<le> 0 \<and> a = of_int 0 * 2 powi 0 \<and> a < 2 powi (0 + 53)" by simp
  then show ?thesis by blast
next
  case False
  with assms(2) have pos: "0 < a" by simp
  define E where "E = max (floor_log2 a - 52) (- 1074)"
  define N where "N = round_even (a / 2 powi E)"
  have "floor_log2 a < 53" using pos assms(3) by (rule floor_log2_less_53)
  then have E: "E \<le> 0" by (simp add: E_def)
  have "binary64 a = a" using assms(1) by (simp add: is_binary64_def)
  then have a: "a = of_int N * 2 powi E"
    using binary64_pos[OF pos] by (simp add: E_def N_def)
  have "floor_log2 a + 1 \<le> E + 53" by (simp add: E_def)
  then have "(2::real) powi (floor_log2 a + 1) \<le> 2 powi (E + 53)"
    by (rule power_int_increasing) simp
  with floor_log2_bounds(2)[OF pos] have "a < 2 powi (E + 53)" by simp
  with E a show ?thesis by blast
qed

lemma grid_gap:
  fixes a :: real
  assumes "E \<le> 0" and "a = of_int N * 2 powi E" and "a < of_int M"
  shows "a + 2 powi E \<le> of_int M"
proof -
  define n where "n = nat (- E)"
  have pe: "(2::real) powi E = 1 / 2 ^ n"
    using power_int_nonpos[OF assms(1)] by (simp add: n_def)
  have "of_int N / 2 ^ n < (of_int M :: real)"
    using assms(2,3) by (simp add: pe)
  then have "(of_int N :: real) < of_int (M * 2 ^ n)"
    by (simp add: pos_divide_less_eq)
  then have "N < M * 2 ^ n" by (simp only: of_int_less_iff)
  then have "N + 1 \<le> M * 2 ^ n" by simp
  then have "(of_int (N + 1) :: real) \<le> of_int (M * 2 ^ n)" by (simp only: of_int_le_iff)
  then have "(of_int N + 1) / 2 ^ n \<le> (of_int M :: real)"
    by (simp add: pos_divide_le_eq)
  then show ?thesis by (simp add: assms(2) pe add_divide_distrib)
qed

lemma binary64_div_less:
  assumes E: "E \<le> 0" and a: "a = of_int N * 2 powi E" and pos: "0 < a"
    and small: "a < 2 powi (E + 53)" and d: "0 < d" and below: "a < of_int (d * K)"
  shows "binary64 (a / of_int d) < of_int K"
proof -
  define q where "q = a / of_int d"
  have dr: "0 < (of_int d :: real)" using d by simp
  have q: "0 < q" using pos dr by (simp add: q_def)
  have gap: "a + 2 powi E \<le> of_int (d * K)" using E a below by (rule grid_gap)
  have "0 < (of_int (d * K) :: real)" using pos below by linarith
  then have "0 < d * K" by (simp only: of_int_0_less_iff)
  with d have "0 < K" by (simp add: zero_less_mult_iff)
  then have K: "1 \<le> (of_int K :: real)" by simp
  define e where "e = max (floor_log2 q - 52) (- 1074)"
  have upper: "binary64 q \<le> q + 2 powi e / 2"
    using binary64_upper[OF q] by (simp add: e_def)
  show ?thesis
  proof (cases "- 1074 \<le> floor_log2 q - 52")
    case True
    then have "e = floor_log2 q - 52" by (simp add: e_def)
    then have "(2::real) powi e = 2 powi floor_log2 q / 2 ^ 52"
      by (simp add: power_int_diff)
    also have "\<dots> \<le> q / 2 ^ 52"
      using floor_log2_bounds(1)[OF q] by (simp add: divide_right_mono)
    finally have "binary64 q \<le> q + q / 2 ^ 53" using upper by simp
    moreover have "a / 2 ^ 53 < 2 powi E"
    proof -
      have "(2::real) powi (E + 53) = 2 powi E * 2 ^ 53" by (simp add: power_int_add)
      with small show ?thesis by (simp add: pos_divide_less_eq)
    qed
    then have "a + a / 2 ^ 53 < of_int (d * K)" using gap by linarith
    then have "(a + a / 2 ^ 53) / of_int d < of_int K"
      using dr by (simp add: pos_divide_less_eq mult.commute)
    then have "q + q / 2 ^ 53 < of_int K"
      by (simp add: q_def add_divide_distrib)
    ultimately show ?thesis unfolding q_def by linarith
  next
    case False
    then have e: "e = - 1074" and "floor_log2 q + 1 \<le> - 2" by (simp_all add: e_def)
    then have "(2::real) powi (floor_log2 q + 1) \<le> 2 powi (- 2)"
      by (intro power_int_increasing) simp_all
    with floor_log2_bounds(2)[OF q] have "q < 1 / 4" by simp
    moreover have "(2::real) powi e \<le> 2 powi (- 2)"
      unfolding e by (intro power_int_increasing) simp_all
    then have "(2::real) powi e / 2 \<le> 1 / 8" by simp
    ultimately have "binary64 q < 1" using upper by linarith
    with K show ?thesis unfolding q_def by linarith
  qed
qed

lemma binary64_div_floor:
  assumes E: "E \<le> 0" and a: "a = of_int N * 2 powi E" and nonneg: "0 \<le> a"
    and small: "a < 2 powi (E + 53)" and d: "0 < d"
  shows "\<lfloor>binary64 (a / of_int d)\<rfloor> = \<lfloor>a / of_int d\<rfloor>"
proof (cases "a = 0")
  case True
  then show ?thesis by (simp add: binary64_def)
next
  case False
  with nonneg have pos: "0 < a" by simp
  define k where "k = \<lfloor>a / of_int d\<rfloor>"
  have dr: "1 \<le> (of_int d :: real)" using d by simp
  have q: "0 < a / of_int d" using pos dr by simp
  have "E + 53 \<le> 53" using E by simp
  then have "(2::real) powi (E + 53) \<le> 2 powi 53"
    by (rule power_int_increasing) simp
  with small have "a < 2 ^ 53" by simp
  moreover have "a / of_int d \<le> a" using dr pos by (simp add: field_simps)
  ultimately have q53: "a / of_int d < 2 ^ 53" by linarith
  have "of_int k \<le> a / of_int d" by (simp add: k_def)
  with q q53 have lower: "of_int k \<le> binary64 (a / of_int d)" by (rule binary64_ge_int)
  have "a / of_int d < of_int (k + 1)" unfolding k_def by linarith
  then have "a < of_int (k + 1) * of_int d"
    using dr by (simp add: pos_divide_less_eq)
  then have "a < of_int (d * (k + 1))" by (simp add: mult.commute)
  with E a pos small d have "binary64 (a / of_int d) < of_int (k + 1)"
    by (rule binary64_div_less)
  then have "binary64 (a / of_int d) < of_int k + 1" by simp
  with lower have "\<lfloor>binary64 (a / of_int d)\<rfloor> = k" by (rule floor_unique)
  then show ?thesis by (simp add: k_def)
qed


subsection \<open>Quotients and remainders of the elapsed time\<close>

lemma exact_mod_range:
  fixes x y :: real
  assumes "0 < y"
  shows "0 \<le> x - y * of_int \<lfloor>x / y\<rfloor> \<and> x - y * of_int \<lfloor>x / y\<rfloor> < y"
proof -
  have "of_int \<lfloor>x / y\<rfloor> * y \<le> x"
    using assms by (simp add: pos_le_divide_eq[symmetric])
  moreover have "x < (of_int \<lfloor>x / y\<rfloor> + 1) * y"
  proof -
    have "x / y < of_int \<lfloor>x / y\<rfloor> + 1" by linarith
    then show ?thesis using assms by (simp only: pos_divide_less_eq)
  qed
  ultimately show ?thesis by (simp add: algebra_simps)
qed

lemma float_mod_nonneg:
  assumes "0 \<le> x" and "0 < y"
  shows "float_mod x y = x - y * of_int \<lfloor>x / y\<rfloor>"
proof -
  have "0 \<le> x / y" using assms by simp
  then have "py_int (x / y) = \<lfloor>x / y\<rfloor>" by (simp add: py_int_def)
  moreover have "0 \<le> x - y * of_int \<lfloor>x / y\<rfloor>" using exact_mod_range[OF assms(2)] by simp
  ultimately show ?thesis using assms(2) by (simp add: float_mod_def Let_def)
qed

lemma py_int_floor: "0 \<le> \<lfloor>x\<rfloor> \<Longrightarrow> py_int x = \<lfloor>x\<rfloor>"
  by (simp add: py_int_def)

lemma grid_mod:
  fixes a :: real
  assumes E: "E \<le> 0" and a: "a = of_int N * 2 powi E"
  shows "\<exists>N'. a - of_int d * of_int k = of_int N' * 2 powi E"
proof -
  define n where "n = nat (- E)"
  have pe: "(2::real) powi E = 1 / 2 ^ n"
    using power_int_nonpos[OF E] by (simp add: n_def)
  have "a - of_int d * of_int k = of_int (N - d * k * 2 ^ n) * 2 powi E"
    by (simp add: a pe field_simps)
  then show ?thesis by blast
qed

text \<open>
  C7, as amended: for every non-negative elapsed interval below \<open>2^53\<close> seconds the
  printed decomposition is exact: the hours are the floor of interval / 3600, the
  minutes and the seconds lie in [0, 60), and 3600 * hours + 60 * minutes + seconds is
  the floor of the interval. Below \<open>2^53\<close> the rounding of the two quotients never
  reaches the next integer.
\<close>

theorem elapsed_fields_exact:
  assumes float: "is_binary64 interval" and nonneg: "0 \<le> interval"
    and small: "interval < 2 ^ 53"
  shows "(case elapsed_fields interval of (h, m, sec) \<Rightarrow>
           h = \<lfloor>interval / 3600\<rfloor> \<and> 0 \<le> m \<and> m < 60 \<and> 0 \<le> sec \<and> sec < 60 \<and>
           3600 * h + 60 * m + sec = \<lfloor>interval\<rfloor>)"
proof -
  obtain E N where E: "E \<le> 0" and grid: "interval = of_int N * 2 powi E"
    and below: "interval < 2 powi (E + 53)"
    using binary64_grid[OF float nonneg small] by blast
  define r where "r = interval - 3600 * of_int \<lfloor>interval / 3600\<rfloor>"
  define r2 where "r2 = r - 60 * of_int \<lfloor>r / 60\<rfloor>"
  have r: "0 \<le> r" "r < 3600"
    using exact_mod_range[of 3600 interval] by (simp_all add: r_def)
  have r2: "0 \<le> r2" "r2 < 60"
    using exact_mod_range[of 60 r] by (simp_all add: r2_def)
  have mod1: "float_mod interval 3600 = r"
    using float_mod_nonneg[OF nonneg, of 3600] by (simp add: r_def)
  have mod2: "float_mod r 60 = r2"
    using float_mod_nonneg[OF r(1), of 60] by (simp add: r2_def)
  obtain N' where rgrid: "r = of_int N' * 2 powi E"
    using grid_mod[OF E grid, of 3600 "\<lfloor>interval / 3600\<rfloor>"] by (auto simp: r_def)
  have "r \<le> interval"
  proof -
    have "0 \<le> interval / 3600" using nonneg by simp
    then have "0 \<le> \<lfloor>interval / 3600\<rfloor>" by simp
    then have "0 \<le> (of_int \<lfloor>interval / 3600\<rfloor> :: real)" by simp
    then show ?thesis by (simp add: r_def)
  qed
  with below have rbelow: "r < 2 powi (E + 53)" by simp
  have fh: "\<lfloor>binary64 (interval / 3600)\<rfloor> = \<lfloor>interval / 3600\<rfloor>"
    using binary64_div_floor[OF E grid nonneg below, of 3600] by simp
  have fm: "\<lfloor>binary64 (r / 60)\<rfloor> = \<lfloor>r / 60\<rfloor>"
    using binary64_div_floor[OF E rgrid r(1) rbelow, of 60] by simp
  have m_lo: "0 \<le> \<lfloor>r / 60\<rfloor>" using r by simp
  have m_hi: "\<lfloor>r / 60\<rfloor> < 60" using r by (simp add: floor_less_iff)
  have s_lo: "0 \<le> \<lfloor>r2\<rfloor>" using r2 by simp
  have s_hi: "\<lfloor>r2\<rfloor> < 60" using r2 by (simp add: floor_less_iff)
  have h_lo: "0 \<le> \<lfloor>interval / 3600\<rfloor>" using nonneg by simp
  have h: "py_int (float_truediv interval 3600) = \<lfloor>interval / 3600\<rfloor>"
    unfolding float_truediv_def using py_int_floor[of "binary64 (interval / 3600)"] fh h_lo
    by simp
  have m: "py_int (float_truediv r 60) = \<lfloor>r / 60\<rfloor>"
    unfolding float_truediv_def using py_int_floor[of "binary64 (r / 60)"] fm m_lo
    by simp
  have s: "py_int r2 = \<lfloor>r2\<rfloor>" using s_lo by (rule py_int_floor)
  have "r2 = r - of_int (60 * \<lfloor>r / 60\<rfloor>)" by (simp add: r2_def)
  then have fr2: "\<lfloor>r2\<rfloor> = \<lfloor>r\<rfloor> - 60 * \<lfloor>r / 60\<rfloor>" by (simp only: floor_diff_of_int)
  have "r = interval - of_int (3600 * \<lfloor>interval / 3600\<rfloor>)" by (simp add: r_def)
  then have fr: "\<lfloor>r\<rfloor> = \<lfloor>interval\<rfloor> - 3600 * \<lfloor>interval / 3600\<rfloor>"
    by (simp only: floor_diff_of_int)
  have total: "3600 * \<lfloor>interval / 3600\<rfloor> + 60 * \<lfloor>r / 60\<rfloor> + \<lfloor>r2\<rfloor> = \<lfloor>interval\<rfloor>"
    using fr fr2 by simp
  show ?thesis
    unfolding elapsed_fields_def mod1 mod2
    using h m s m_lo m_hi s_lo s_hi total by simp
qed

lemma is_binary64_example: "is_binary64 3725.5"
  by (simp add: is_binary64_def binary64_def floor_log2_def floor_log2_up.simps
      round_even_def)

theorem elapsed_fields_exact_witness:
  "is_binary64 3725.5 \<and> (0::real) \<le> 3725.5 \<and> (3725.5::real) < 2 ^ 53 \<and>
   elapsed_fields 3725.5 = (1, 2, 5) \<and> \<lfloor>3725.5::real\<rfloor> = 3725 \<and>
   \<lfloor>3725.5 / 3600 :: real\<rfloor> = 1"
proof -
  have nonneg: "(0::real) \<le> 3725.5" and small: "(3725.5::real) < 2 ^ 53"
    by simp_all
  have "elapsed_fields 3725.5 = (1, 2, 5)"
    by (simp add: elapsed_fields_def float_truediv_def float_mod_def py_int_def binary64_def
        floor_log2_def floor_log2_up.simps floor_log2_down.simps round_even_def)
  with elapsed_fields_exact[OF is_binary64_example nonneg small] is_binary64_example
  show ?thesis by simp
qed

text \<open>
  C7 without the bound fails: the decomposition can be off by an hour. The float
  253327479039593984.0 is non-negative; its quotient by 3600 lies within 0.0045 of the
  integer 70368744177665 and above \<open>2^46\<close>, where the floats are 1/64 apart, so the
  division rounds up to that integer. The hours printed are one more than the floor of
  interval / 3600, and the three fields add up to 3600 seconds more than the interval.
\<close>

theorem elapsed_fields_inexact:
  "is_binary64 253327479039593984 \<and> (0::real) \<le> 253327479039593984 \<and>
   elapsed_fields 253327479039593984 = (70368744177665, 59, 44) \<and>
   \<lfloor>253327479039593984 / 3600 :: real\<rfloor> = 70368744177664 \<and>
   \<not> (case elapsed_fields 253327479039593984 of (h, m, sec) \<Rightarrow>
         h = \<lfloor>253327479039593984 / 3600 :: real\<rfloor> \<and> 0 \<le> m \<and> m < 60 \<and>
         0 \<le> sec \<and> sec < 60 \<and>
         3600 * h + 60 * m + sec = \<lfloor>253327479039593984 :: real\<rfloor>)"
  by (simp add: is_binary64_def elapsed_fields_def float_truediv_def float_mod_def py_int_def
      binary64_def floor_log2_def floor_log2_up.simps floor_log2_down.simps round_even_def)

end
